theory Spec2Isabelle
  imports Complex_Main "HOL-Library.Multiset" "HOL-Library.Sublist"
begin

section \<open>Numbers, errors and numpy arrays\<close>

text \<open>
  The module \<^verbatim>\<open>energy.py\<close> computes with Python numbers and one-dimensional numpy arrays.
  A finite float is modelled by a \<^typ>\<open>real\<close>: arithmetic is exact, so rounding and overflow
  are outside the model. Two things the code can do beyond returning a finite number are
  kept:
  \<^item> an exception is a value \<open>Inl e\<close> of a sum type;
  \<^item> an element-wise numpy operation that divides by zero does not raise, it yields
    \<^verbatim>\<open>inf\<close> and then \<^verbatim>\<open>nan\<close>; such a non-finite float is \<open>None\<close> in the type
    \<open>npfloat\<close>. Every operation the code applies afterwards (power, subtraction, product
    with a constant, sum, halving) maps a non-finite float to a non-finite float.
\<close>

datatype error = IndexError | ZeroDivisionError

type_synonym npfloat = "real option"

type_synonym point = "real \<times> real \<times> real"

fun np_add :: "npfloat \<Rightarrow> npfloat \<Rightarrow> npfloat" where
  "np_add (Some x) (Some y) = Some (x + y)"
| "np_add _ _ = None"

primrec np_sum :: "npfloat list \<Rightarrow> npfloat" where
  "np_sum [] = Some 0"
| "np_sum (x # xs) = np_add x (np_sum xs)"

definition np_half :: "npfloat \<Rightarrow> npfloat" where
  "np_half x = map_option (\<lambda>v. v / 2) x"

text \<open>
  \<^verbatim>\<open>a[i]\<close> on the first axis of an array with \<open>n\<close> rows: an integer outside \<open>[-n, n)\<close>
  raises IndexError, a negative one counts from the end.
\<close>

definition np_index :: "'a list \<Rightarrow> int \<Rightarrow> error + 'a" where
  "np_index a i =
     (let n = int (length a)
      in if i < - n \<or> n \<le> i then Inl IndexError
         else Inr (a ! nat (if i < 0 then i + n else i)))"

text \<open>
  \<^verbatim>\<open>np.delete(arr, obj)\<close> for one integer \<open>obj\<close> on a one-dimensional array: the same
  range check and the same reading of a negative index, then a copy without that entry.
\<close>

definition np_delete :: "'a list \<Rightarrow> int \<Rightarrow> error + 'a list" where
  "np_delete arr obj =
     (let n = int (length arr)
      in if obj < - n \<or> n \<le> obj then Inl IndexError
         else let k = nat (if obj < 0 then obj + n else obj)
              in Inr (take k arr @ drop (Suc k) arr))"

section \<open>The geometry collaborator and the evaluator\<close>

text \<open>
  The class of \<^verbatim>\<open>Geom\<close> is not part of \<^verbatim>\<open>energy.py\<close>. The evaluator reads three of its
  attributes and calls one method, which is a field of the record: any function from a
  point and a coordinate array to an array of squared distances. Its interface promises one
  squared distance per particle, in the order of the coordinate array; a theorem that needs
  this says so in a hypothesis on the length of the returned array.
\<close>

record geom =
  coordinates :: "point list"
  num_particles :: int
  volume :: real
  minimum_image_distance :: "point \<Rightarrow> point list \<Rightarrow> real list"

record energy =
  Geom :: geom
  cutoff :: real
  cutoff2 :: real


section \<open>Pair potential\<close>

text \<open>The three assignments of \<^verbatim>\<open>lennard_jones_potential\<close>, for a non-zero argument.\<close>

definition lj_value :: "real \<Rightarrow> real" where
  "lj_value rij2 =
     (let sig_by_r6 = (1 / rij2) ^ 3;
          sig_by_r12 = sig_by_r6 ^ 2
      in 4 * (sig_by_r12 - sig_by_r6))"

text \<open>
  Called with a Python number, as the docstring has it (\<^verbatim>\<open>float or integer\<close>):
  \<^verbatim>\<open>1 / rij2\<close> raises ZeroDivisionError at zero.
\<close>

definition lennard_jones_potential :: "real \<Rightarrow> error + real" where
  "lennard_jones_potential rij2 =
     (if rij2 = 0 then Inl ZeroDivisionError else Inr (lj_value rij2))"

text \<open>
  Called with a numpy array, as \<^verbatim>\<open>get_particle_energy\<close> does: the same statements work
  element by element, and a zero entry gives a non-finite entry instead of an exception.
\<close>

definition lennard_jones_potential_array :: "real list \<Rightarrow> npfloat list" where
  "lennard_jones_potential_array rij2 =
     map (\<lambda>r. if r = 0 then None else Some (lj_value r)) rij2"

section \<open>Per-particle energy\<close>

definition get_particle_energy :: "energy \<Rightarrow> int \<Rightarrow> point list \<Rightarrow> error + npfloat" where
  "get_particle_energy self i_particle coords =
     (case np_index coords i_particle of
        Inl e \<Rightarrow> Inl e
      | Inr r_i \<Rightarrow>
          (let rij2 = minimum_image_distance (Geom self) r_i coords
           in case np_delete rij2 i_particle of
                Inl e \<Rightarrow> Inl e
              | Inr red \<Rightarrow>
                  (let pot = lennard_jones_potential_array
                               (filter (\<lambda>d. d < cutoff2 self) red);
                       e_total = np_sum pot
                   in Inr e_total)))"

section \<open>Total pair energy\<close>

text \<open>
  The \<^verbatim>\<open>for\<close> loop over \<^verbatim>\<open>range(particle_count)\<close>, with the accumulator \<^verbatim>\<open>e_total\<close>; an
  exception of a call leaves the loop.
\<close>

fun pair_energy_loop :: "energy \<Rightarrow> nat list \<Rightarrow> npfloat \<Rightarrow> error + npfloat" where
  "pair_energy_loop self [] e_total = Inr e_total"
| "pair_energy_loop self (i_particle # rest) e_total =
     (case get_particle_energy self (int i_particle) (coordinates (Geom self)) of
        Inl e \<Rightarrow> Inl e
      | Inr e_i \<Rightarrow> pair_energy_loop self rest (np_add e_total e_i))"

definition calculate_total_pair_energy :: "energy \<Rightarrow> error + npfloat" where
  "calculate_total_pair_energy self =
     (let particle_count = length (coordinates (Geom self))
      in case pair_energy_loop self [0..<particle_count] (Some 0) of
           Inl e \<Rightarrow> Inl e
         | Inr e_total \<Rightarrow> Inr (np_half e_total))"

section \<open>Tail correction\<close>

text \<open>
  \<^verbatim>\<open>cutoff\<close> and \<^verbatim>\<open>volume\<close> are Python numbers (\<^verbatim>\<open>integer or float\<close> in the docstring), so
  both divisions raise ZeroDivisionError at zero. The product of the last statement is
  evaluated from the left, the division by the volume after the first factor
  \<^verbatim>\<open>num_particles\<close>.
\<close>

definition calculate_tail_correction :: "energy \<Rightarrow> error + real" where
  "calculate_tail_correction self =
     (let n = real_of_int (num_particles (Geom self))
      in if cutoff self = 0 then Inl ZeroDivisionError
         else let sig_by_cutoff3 = (1 / cutoff self) ^ 3;
                  sig_by_cutoff9 = sig_by_cutoff3 ^ 3;
                  e_correction = sig_by_cutoff9 - 3 * sig_by_cutoff3
              in if volume (Geom self) = 0 then Inl ZeroDivisionError
                 else Inr (e_correction * (8 / 9 * pi * n / volume (Geom self) * n)))"

section \<open>A geometry to evaluate on\<close>

text \<open>
  A box so large that no image is nearer than the particle itself: the squared Euclidean
  distance from the point to every row.
\<close>

fun sq_dist :: "point \<Rightarrow> point \<Rightarrow> real" where
  "sq_dist (x, y, z) (a, b, c) = (x - a) ^ 2 + (y - b) ^ 2 + (z - c) ^ 2"

definition open_box :: "point list \<Rightarrow> real \<Rightarrow> geom" where
  "open_box coords vol =
     \<lparr>coordinates = coords, num_particles = int (length coords), volume = vol,
      minimum_image_distance = (\<lambda>p cs. map (sq_dist p) cs)\<rparr>"

text \<open>
  Evaluators with cutoff 3 on such a box: two particles at distance 2, three on a line,
  three with every pair beyond the cutoff, and no particle at all.
\<close>

definition pair_at_two :: energy where
  "pair_at_two = \<lparr>Geom = open_box [(0, 0, 0), (2, 0, 0)] 1000, cutoff = 3, cutoff2 = 9\<rparr>"

definition three_in_a_row :: energy where
  "three_in_a_row =
     \<lparr>Geom = open_box [(0, 0, 0), (2, 0, 0), (5, 0, 0)] 1000, cutoff = 3, cutoff2 = 9\<rparr>"

definition far_apart :: energy where
  "far_apart = \<lparr>Geom = open_box [(0, 0, 0), (4, 0, 0), (0, 5, 0)] 1000, cutoff = 3, cutoff2 = 9\<rparr>"


section \<open>The evaluator in a store of mutable objects\<close>

text \<open>
  A numpy array and an object are mutable and shared by reference, so the question which
  method writes where needs a store. The store holds every numpy array and every geometry
  object by address, and the three attributes of the evaluator object. Four kinds of array
  occur: the coordinate array (one row per particle), a one-dimensional array of finite
  floats, a one-dimensional array whose entries may be non-finite, and a boolean array.
\<close>

type_synonym addr = nat

datatype ndarray =
    Coords "point list"
  | Reals "real list"
  | Floats "npfloat list"
  | Bools "bool list"

record geom_object =
  Geom_coordinates :: addr
  Geom_num_particles :: int
  Geom_volume :: real

record store =
  arrays :: "ndarray list"
  geoms :: "geom_object list"
  self_Geom :: addr
  self_cutoff :: real
  self_cutoff2 :: real

text \<open>
  A statement takes the store and returns its outcome with the store after it: a value, an
  exception, or \<open>Ill_typed\<close> when an operand is not an object of the kind the statement
  needs (the typed functions above cannot be given such an operand).
\<close>

datatype 'a outcome = Returned 'a | Raised error | Ill_typed

type_synonym 'a action = "store \<Rightarrow> 'a outcome \<times> store"

definition returns :: "'a \<Rightarrow> 'a action" where
  "returns x s = (Returned x, s)"

definition raises :: "error \<Rightarrow> 'a action" where
  "raises e s = (Raised e, s)"

definition ill_typed :: "'a action" where
  "ill_typed s = (Ill_typed, s)"

definition bind_st :: "'a action \<Rightarrow> ('a \<Rightarrow> 'b action) \<Rightarrow> 'b action" where
  "bind_st f g s =
     (case f s of
        (Returned x, s') \<Rightarrow> g x s'
      | (Raised e, s') \<Rightarrow> (Raised e, s')
      | (Ill_typed, s') \<Rightarrow> (Ill_typed, s'))"

definition attr :: "(store \<Rightarrow> 'a) \<Rightarrow> 'a action" where
  "attr field s = (Returned (field s), s)"

text \<open>A numpy operation that returns a new array puts it at the next free address.\<close>

definition new_array :: "ndarray \<Rightarrow> addr action" where
  "new_array v s = (Returned (length (arrays s)), s\<lparr>arrays := arrays s @ [v]\<rparr>)"

definition array_at :: "addr \<Rightarrow> store \<Rightarrow> ndarray option" where
  "array_at a s = (if a < length (arrays s) then Some (arrays s ! a) else None)"

definition geom_at :: "addr \<Rightarrow> store \<Rightarrow> geom_object option" where
  "geom_at g s = (if g < length (geoms s) then Some (geoms s ! g) else None)"

definition the_geom :: "addr \<Rightarrow> geom_object action" where
  "the_geom g s = (case geom_at g s of Some G \<Rightarrow> (Returned G, s) | None \<Rightarrow> (Ill_typed, s))"

definition Geom_attr :: "(geom_object \<Rightarrow> 'a) \<Rightarrow> 'a action" where
  "Geom_attr field =
     bind_st (attr self_Geom) (\<lambda>g. bind_st (the_geom g) (\<lambda>G. returns (field G)))"

definition the_coords :: "addr \<Rightarrow> point list action" where
  "the_coords a s = (case array_at a s of Some (Coords cs) \<Rightarrow> (Returned cs, s) | _ \<Rightarrow> (Ill_typed, s))"

definition the_reals :: "addr \<Rightarrow> real list action" where
  "the_reals a s = (case array_at a s of Some (Reals xs) \<Rightarrow> (Returned xs, s) | _ \<Rightarrow> (Ill_typed, s))"

definition the_floats :: "addr \<Rightarrow> npfloat list action" where
  "the_floats a s = (case array_at a s of Some (Floats xs) \<Rightarrow> (Returned xs, s) | _ \<Rightarrow> (Ill_typed, s))"

definition the_bools :: "addr \<Rightarrow> bool list action" where
  "the_bools a s = (case array_at a s of Some (Bools bs) \<Rightarrow> (Returned bs, s) | _ \<Rightarrow> (Ill_typed, s))"

text \<open>
  \<^verbatim>\<open>coordinates[i_particle]\<close> is a view: it names the array and the row, and copies nothing.
\<close>

definition getitem_row :: "addr \<Rightarrow> int \<Rightarrow> (addr \<times> nat) action" where
  "getitem_row a i =
     bind_st (the_coords a) (\<lambda>cs.
       let n = int (length cs)
       in if i < - n \<or> n \<le> i then raises IndexError
          else returns (a, nat (if i < 0 then i + n else i)))"

text \<open>
  The numpy operations the module uses. Each reads its operands and returns a new array:
  \<^verbatim>\<open>np.delete\<close>, the comparison with a number, the selection by a boolean array (which
  raises IndexError when the lengths differ), \<^verbatim>\<open>1 / a\<close>, \<^verbatim>\<open>np.power\<close>, the difference of
  two arrays, the product with a number; \<^verbatim>\<open>sum\<close> returns a number.
\<close>

definition np_delete_st :: "addr \<Rightarrow> int \<Rightarrow> addr action" where
  "np_delete_st arr obj =
     bind_st (the_reals arr) (\<lambda>xs.
       case np_delete xs obj of
         Inl e \<Rightarrow> raises e
       | Inr red \<Rightarrow> new_array (Reals red))"

definition np_less :: "addr \<Rightarrow> real \<Rightarrow> addr action" where
  "np_less a c = bind_st (the_reals a) (\<lambda>xs. new_array (Bools (map (\<lambda>d. d < c) xs)))"

definition getitem_mask :: "addr \<Rightarrow> addr \<Rightarrow> addr action" where
  "getitem_mask a keep =
     bind_st (the_reals a) (\<lambda>xs.
     bind_st (the_bools keep) (\<lambda>bs.
       if length bs \<noteq> length xs then raises IndexError
       else new_array (Reals (map fst (filter snd (zip xs bs))))))"

definition np_reciprocal :: "addr \<Rightarrow> addr action" where
  "np_reciprocal a =
     bind_st (the_reals a) (\<lambda>xs.
       new_array (Floats (map (\<lambda>r. if r = 0 then None else Some (1 / r)) xs)))"

definition np_power :: "addr \<Rightarrow> nat \<Rightarrow> addr action" where
  "np_power a k =
     bind_st (the_floats a) (\<lambda>xs. new_array (Floats (map (map_option (\<lambda>x. x ^ k)) xs)))"

fun np_sub :: "npfloat \<Rightarrow> npfloat \<Rightarrow> npfloat" where
  "np_sub (Some x) (Some y) = Some (x - y)"
| "np_sub _ _ = None"

definition np_subtract :: "addr \<Rightarrow> addr \<Rightarrow> addr action" where
  "np_subtract a b =
     bind_st (the_floats a) (\<lambda>xs.
     bind_st (the_floats b) (\<lambda>ys.
       if length xs \<noteq> length ys then ill_typed
       else new_array (Floats (map (\<lambda>(x, y). np_sub x y) (zip xs ys)))))"

definition np_scale :: "real \<Rightarrow> addr \<Rightarrow> addr action" where
  "np_scale c a =
     bind_st (the_floats a) (\<lambda>xs. new_array (Floats (map (map_option (\<lambda>x. c * x)) xs)))"

definition np_sum_st :: "addr \<Rightarrow> npfloat action" where
  "np_sum_st a = bind_st (the_floats a) (\<lambda>xs. returns (np_sum xs))"

text \<open>
  \<^verbatim>\<open>self.Geom.minimum_image_distance(r_i, coordinates)\<close>: the method is given the geometry
  object, the row view and the coordinate array, and returns the address of an array. Its
  code is absent, so it is a parameter: any statement, which may write to any array,
  geometry object or attribute.
\<close>

type_synonym distance_method = "addr \<Rightarrow> addr \<times> nat \<Rightarrow> addr \<Rightarrow> addr action"

text \<open>The methods of \<^verbatim>\<open>Energy\<close>, statement by statement.\<close>

definition Energy_init_st :: "addr \<Rightarrow> real \<Rightarrow> unit action" where
  "Energy_init_st G c s =
     (Returned (), s\<lparr>self_Geom := G, self_cutoff := c, self_cutoff2 := c ^ 2\<rparr>)"

definition lennard_jones_potential_st :: "addr \<Rightarrow> addr action" where
  "lennard_jones_potential_st rij2 =
     bind_st (np_reciprocal rij2) (\<lambda>recip.
     bind_st (np_power recip 3) (\<lambda>sig_by_r6.
     bind_st (np_power sig_by_r6 2) (\<lambda>sig_by_r12.
     bind_st (np_subtract sig_by_r12 sig_by_r6) (\<lambda>difference.
     np_scale 4 difference))))"

definition lennard_jones_potential_number :: "real \<Rightarrow> real action" where
  "lennard_jones_potential_number rij2 =
     (if rij2 = 0 then raises ZeroDivisionError else returns (lj_value rij2))"

definition get_particle_energy_st :: "distance_method \<Rightarrow> int \<Rightarrow> addr \<Rightarrow> npfloat action" where
  "get_particle_energy_st distance i_particle coords =
     bind_st (getitem_row coords i_particle) (\<lambda>r_i.
     bind_st (attr self_Geom) (\<lambda>g.
     bind_st (distance g r_i coords) (\<lambda>rij2.
     bind_st (np_delete_st rij2 i_particle) (\<lambda>red.
     bind_st (attr self_cutoff2) (\<lambda>c2.
     bind_st (np_less red c2) (\<lambda>keep.
     bind_st (getitem_mask red keep) (\<lambda>near.
     bind_st (lennard_jones_potential_st near) (\<lambda>pot.
     np_sum_st pot))))))))"

fun pair_energy_loop_st :: "distance_method \<Rightarrow> nat list \<Rightarrow> npfloat \<Rightarrow> npfloat action" where
  "pair_energy_loop_st distance [] e_total = returns e_total"
| "pair_energy_loop_st distance (i_particle # rest) e_total =
     bind_st (Geom_attr Geom_coordinates) (\<lambda>coords.
     bind_st (get_particle_energy_st distance (int i_particle) coords) (\<lambda>e_i.
     pair_energy_loop_st distance rest (np_add e_total e_i)))"

definition calculate_total_pair_energy_st :: "distance_method \<Rightarrow> npfloat action" where
  "calculate_total_pair_energy_st distance =
     bind_st (Geom_attr Geom_coordinates) (\<lambda>coords.
     bind_st (the_coords coords) (\<lambda>cs.
     bind_st (pair_energy_loop_st distance [0..<length cs] (Some 0)) (\<lambda>e_total.
     returns (np_half e_total))))"

definition calculate_tail_correction_st :: "real action" where
  "calculate_tail_correction_st =
     bind_st (Geom_attr Geom_num_particles) (\<lambda>num_particles.
     bind_st (attr self_cutoff) (\<lambda>c.
       if c = 0 then raises ZeroDivisionError
       else let sig_by_cutoff3 = (1 / c) ^ 3;
                sig_by_cutoff9 = sig_by_cutoff3 ^ 3;
                e_correction = sig_by_cutoff9 - 3 * sig_by_cutoff3
            in bind_st (Geom_attr Geom_volume) (\<lambda>v.
                 if v = 0 then raises ZeroDivisionError
                 else returns (e_correction
                        * (8 / 9 * pi * real_of_int num_particles / v
                             * real_of_int num_particles)))))"

text \<open>
  The calls a program can make on the evaluator, the store after a call, and the stores a
  program can reach: after the constructor, and after any call from a reachable store.
\<close>

datatype call =
    LennardJones real
  | LennardJonesArray addr
  | ParticleEnergy int addr
  | TotalPairEnergy
  | TailCorrection

fun after :: "distance_method \<Rightarrow> call \<Rightarrow> store \<Rightarrow> store" where
  "after distance (LennardJones r) s = snd (lennard_jones_potential_number r s)"
| "after distance (LennardJonesArray a) s = snd (lennard_jones_potential_st a s)"
| "after distance (ParticleEnergy i coords) s = snd (get_particle_energy_st distance i coords s)"
| "after distance TotalPairEnergy s = snd (calculate_total_pair_energy_st distance s)"
| "after distance TailCorrection s = snd (calculate_tail_correction_st s)"

inductive reachable :: "distance_method \<Rightarrow> store \<Rightarrow> bool" for distance where
  constructed: "reachable distance (snd (Energy_init_st G c s))"
| called: "reachable distance s \<Longrightarrow> reachable distance (after distance c s)"

text \<open>
  \<open>unchanged s s'\<close>: every array and every geometry object of \<open>s\<close> is in \<open>s'\<close> at its
  address with its content, and the attributes of the evaluator have their values; \<open>s'\<close> may
  hold more arrays. A statement is read-only when it leaves every store unchanged.
\<close>

definition unchanged :: "store \<Rightarrow> store \<Rightarrow> bool" where
  "unchanged s s' \<longleftrightarrow>
     prefix (arrays s) (arrays s')
     \<and> prefix (geoms s) (geoms s')
     \<and> self_Geom s' = self_Geom s
     \<and> self_cutoff s' = self_cutoff s
     \<and> self_cutoff2 s' = self_cutoff2 s"

definition read_only :: "'a action \<Rightarrow> bool" where
  "read_only f \<longleftrightarrow> (\<forall>s. unchanged s (snd (f s)))"

text \<open>
  Two distance methods. The first computes the array from the row and the coordinates and
  writes nothing. The second first overwrites the row it is given with the origin, through
  the view.
\<close>

definition computed_distance :: "(point \<Rightarrow> point list \<Rightarrow> real list) \<Rightarrow> distance_method" where
  "computed_distance f g r_i coords =
     bind_st (the_coords (fst r_i)) (\<lambda>rows.
     bind_st (the_coords coords) (\<lambda>cs.
       if snd r_i < length rows then new_array (Reals (f (rows ! snd r_i) cs))
       else ill_typed))"

definition setitem_row :: "addr \<Rightarrow> nat \<Rightarrow> point \<Rightarrow> unit action" where
  "setitem_row a k p =
     bind_st (the_coords a) (\<lambda>cs s.
       if k < length cs then (Returned (), s\<lparr>arrays := (arrays s)[a := Coords (cs[k := p])]\<rparr>)
       else (Raised IndexError, s))"

definition recentring_distance :: distance_method where
  "recentring_distance g r_i coords =
     bind_st (setitem_row (fst r_i) (snd r_i) (0, 0, 0)) (\<lambda>_.
     computed_distance (\<lambda>p cs. map (sq_dist p) cs) g r_i coords)"

definition open_box_distance :: distance_method where
  "open_box_distance = computed_distance (\<lambda>p cs. map (sq_dist p) cs)"

text \<open>
  A store with two particles at distance 2 and one geometry object, before the constructor
  (the attributes of the evaluator hold whatever was there) and after the constructor with
  that geometry and cutoff 3.
\<close>

definition two_particle_store :: store where
  "two_particle_store =
     \<lparr>arrays = [Coords [(0, 0, 0), (2, 0, 0)]],
      geoms = [\<lparr>Geom_coordinates = 0, Geom_num_particles = 2, Geom_volume = 1000\<rparr>],
      self_Geom = 7, self_cutoff = 0, self_cutoff2 = 0\<rparr>"

definition two_particle_evaluator :: store where
  "two_particle_evaluator = snd (Energy_init_st 0 3 two_particle_store)"

text \<open>
  The link to the functions above: an outcome of a function as an outcome of a statement,
  and the evaluator record that a store holds, given the function the distance method
  computes.
\<close>

fun outcome_of :: "error + 'a \<Rightarrow> 'a outcome" where
  "outcome_of (Inl e) = Raised e"
| "outcome_of (Inr x) = Returned x"

definition evaluator_of :: "(point \<Rightarrow> point list \<Rightarrow> real list) \<Rightarrow> store \<Rightarrow> energy option" where
  "evaluator_of f s =
     (case geom_at (self_Geom s) s of
        None \<Rightarrow> None
      | Some G \<Rightarrow>
          (case array_at (Geom_coordinates G) s of
             Some (Coords cs) \<Rightarrow>
               Some \<lparr>Geom = \<lparr>coordinates = cs, num_particles = Geom_num_particles G,
                              volume = Geom_volume G, minimum_image_distance = f\<rparr>,
                     cutoff = self_cutoff s, cutoff2 = self_cutoff2 s\<rparr>
           | _ \<Rightarrow> None))"

section \<open>Pair potential: the closed form\<close>

lemma lj_value_closed: "lj_value r = 4 * ((1 / r) ^ 6 - (1 / r) ^ 3)"
  by (simp add: lj_value_def Let_def power_mult [symmetric])

text \<open>
  C3. For every squared separation \<open>r2 > 0\<close> the pair potential returns
  \<open>4 * ((1 / r2) ^ 6 - (1 / r2) ^ 3)\<close>, called with a number and, entry by entry, called
  with an array of positive numbers; at \<open>r2 = 1\<close> it returns \<open>0\<close>.
\<close>

theorem lennard_jones_closed_form:
  "(0 < r2 \<longrightarrow> lennard_jones_potential r2 = Inr (4 * ((1 / r2) ^ 6 - (1 / r2) ^ 3)))
   \<and> ((\<forall>r \<in> set rs. 0 < r) \<longrightarrow>
        lennard_jones_potential_array rs
          = map (\<lambda>r. Some (4 * ((1 / r) ^ 6 - (1 / r) ^ 3))) rs)
   \<and> lennard_jones_potential 1 = Inr 0"
  by (auto simp: lennard_jones_potential_def lennard_jones_potential_array_def lj_value_closed)

theorem lennard_jones_closed_form_witness:
  "(0::real) < 2 \<and> lennard_jones_potential 2 = Inr (- 7 / 16)
   \<and> lennard_jones_potential_array [2, 1] = [Some (- 7 / 16), Some 0]"
  using lennard_jones_closed_form [of 2 "[2, 1]"] by (simp add: power_divide)

section \<open>Array lemmas\<close>

lemma np_sum_eq:
  "np_sum xs = (if None \<in> set xs then None else Some (sum_list (map the xs)))"
proof (induction xs)
  case Nil
  show ?case by simp
next
  case (Cons x xs)
  show ?case
  proof (cases x)
    case None
    then show ?thesis by simp
  next
    case (Some v)
    with Cons show ?thesis by auto
  qed
qed

lemma np_sum_lj_array:
  "np_sum (lennard_jones_potential_array ds) =
     (if 0 \<in> set ds then None else Some (sum_list (map lj_value ds)))"
proof -
  let ?f = "\<lambda>r::real. if r = 0 then None else Some (lj_value r)"
  have mem: "None \<in> set (map ?f ds) \<longleftrightarrow> 0 \<in> set ds"
    by (auto split: if_splits)
  have vals: "0 \<notin> set ds \<Longrightarrow> map the (map ?f ds) = map lj_value ds"
    by (induction ds) auto
  show ?thesis
  proof (cases "0 \<in> set ds")
    case True
    then show ?thesis
      unfolding lennard_jones_potential_array_def np_sum_eq mem by simp
  next
    case False
    then show ?thesis
      unfolding lennard_jones_potential_array_def np_sum_eq mem vals [OF False] by simp
  qed
qed

lemma sum_list_filter_nth:
  fixes f :: "'a \<Rightarrow> real"
  shows "sum_list (map f (filter P xs)) = (\<Sum>j \<in> {j. j < length xs \<and> P (xs ! j)}. f (xs ! j))"
proof (induction xs rule: rev_induct)
  case Nil
  show ?case by simp
next
  case (snoc x xs)
  let ?n = "length xs"
  have old: "{j. j < ?n \<and> P ((xs @ [x]) ! j)} = {j. j < ?n \<and> P (xs ! j)}"
    by (auto simp: nth_append)
  have eq: "(\<Sum>j \<in> {j. j < ?n \<and> P (xs ! j)}. f ((xs @ [x]) ! j))
          = (\<Sum>j \<in> {j. j < ?n \<and> P (xs ! j)}. f (xs ! j))"
    by (rule sum.cong) (auto simp: nth_append)
  show ?case
  proof (cases "P x")
    case True
    then have split: "{j. j < length (xs @ [x]) \<and> P ((xs @ [x]) ! j)}
                    = insert ?n {j. j < ?n \<and> P (xs ! j)}"
      by (auto simp: nth_append less_Suc_eq)
    have "(\<Sum>j \<in> {j. j < length (xs @ [x]) \<and> P ((xs @ [x]) ! j)}. f ((xs @ [x]) ! j))
        = f ((xs @ [x]) ! ?n) + (\<Sum>j \<in> {j. j < ?n \<and> P (xs ! j)}. f ((xs @ [x]) ! j))"
      unfolding split by (rule sum.insert) auto
    also have "\<dots> = f x + sum_list (map f (filter P xs))"
      unfolding eq snoc.IH by simp
    finally show ?thesis
      using True by simp
  next
    case False
    then have same: "{j. j < length (xs @ [x]) \<and> P ((xs @ [x]) ! j)}
                   = {j. j < ?n \<and> P (xs ! j)}"
      by (auto simp: nth_append less_Suc_eq)
    have "(\<Sum>j \<in> {j. j < length (xs @ [x]) \<and> P ((xs @ [x]) ! j)}. f ((xs @ [x]) ! j))
        = sum_list (map f (filter P xs))"
      unfolding same eq snoc.IH by simp
    then show ?thesis
      using False by simp
  qed
qed


lemma set_delete_nth:
  assumes "k < length xs"
  shows "set (take k xs @ drop (Suc k) xs) = {xs ! j |j. j < length xs \<and> j \<noteq> k}"
proof -
  have t: "set (take k xs) = {xs ! j |j. j < k}"
    using assms by (force simp: in_set_conv_nth)
  have d: "set (drop (Suc k) xs) = {xs ! j |j. Suc k \<le> j \<and> j < length xs}"
  proof (rule set_eqI)
    fix x
    show "x \<in> set (drop (Suc k) xs) \<longleftrightarrow> x \<in> {xs ! j |j. Suc k \<le> j \<and> j < length xs}"
    proof
      assume "x \<in> set (drop (Suc k) xs)"
      then obtain m where m: "m < length xs - Suc k" "drop (Suc k) xs ! m = x"
        by (auto simp: in_set_conv_nth)
      then have "xs ! (Suc k + m) = x" "Suc k \<le> Suc k + m" "Suc k + m < length xs"
        using assms by auto
      then show "x \<in> {xs ! j |j. Suc k \<le> j \<and> j < length xs}" by blast
    next
      assume "x \<in> {xs ! j |j. Suc k \<le> j \<and> j < length xs}"
      then obtain j where j: "Suc k \<le> j" "j < length xs" "x = xs ! j" by blast
      then have "drop (Suc k) xs ! (j - Suc k) = x" "j - Suc k < length (drop (Suc k) xs)"
        by auto
      then show "x \<in> set (drop (Suc k) xs)"
        by (metis nth_mem)
    qed
  qed
  have idx: "(j < k \<or> Suc k \<le> j \<and> j < length xs) \<longleftrightarrow> (j < length xs \<and> j \<noteq> k)" for j
    using assms by auto
  have "set (take k xs @ drop (Suc k) xs)
      = {xs ! j |j. j < k \<or> Suc k \<le> j \<and> j < length xs}"
    unfolding set_append t d by blast
  then show ?thesis
    unfolding idx .
qed

lemma sum_list_filter_delete_nth:
  fixes f :: "'a \<Rightarrow> real"
  assumes "k < length xs"
  shows "sum_list (map f (filter P (take k xs @ drop (Suc k) xs)))
       = (\<Sum>j \<in> {j. j < length xs \<and> j \<noteq> k \<and> P (xs ! j)}. f (xs ! j))"
proof -
  let ?J = "{j. j < length xs \<and> j \<noteq> k \<and> P (xs ! j)}"
  let ?a = "if P (xs ! k) then f (xs ! k) else 0"
  have fin: "finite ?J" by simp
  have whole: "xs = take k xs @ xs ! k # drop (Suc k) xs"
    using assms by (rule id_take_nth_drop)
  have "sum_list (map f (filter P xs))
      = sum_list (map f (filter P (take k xs @ xs ! k # drop (Suc k) xs)))"
    using whole by simp
  also have "\<dots> = sum_list (map f (filter P (take k xs @ drop (Suc k) xs))) + ?a"
    by simp
  finally have lhs: "sum_list (map f (filter P (take k xs @ drop (Suc k) xs)))
      = sum_list (map f (filter P xs)) - ?a"
    by simp
  have "(\<Sum>j \<in> {j. j < length xs \<and> P (xs ! j)}. f (xs ! j)) = (\<Sum>j \<in> ?J. f (xs ! j)) + ?a"
  proof (cases "P (xs ! k)")
    case True
    then have "{j. j < length xs \<and> P (xs ! j)} = insert k ?J"
      using assms by auto
    then show ?thesis
      using True fin by (simp add: sum.insert)
  next
    case False
    then have "{j. j < length xs \<and> P (xs ! j)} = ?J"
      by (auto intro: Collect_cong)
    then show ?thesis
      using False by simp
  qed
  then show ?thesis
    unfolding lhs sum_list_filter_nth [of f P xs] by simp
qed


lemma np_index_in_range:
  "0 \<le> i \<Longrightarrow> i < int (length a) \<Longrightarrow> np_index a i = Inr (a ! nat i)"
  by (simp add: np_index_def Let_def)

lemma np_delete_in_range:
  "0 \<le> i \<Longrightarrow> i < int (length a) \<Longrightarrow>
   np_delete a i = Inr (take (nat i) a @ drop (Suc (nat i)) a)"
  by (simp add: np_delete_def Let_def)

lemma get_particle_energy_in_range:
  assumes "0 \<le> i" and "i < int (length coords)"
    and "length (minimum_image_distance (Geom self) (coords ! nat i) coords) = length coords"
  shows "get_particle_energy self i coords =
           Inr (np_sum (lennard_jones_potential_array
                  (filter (\<lambda>d. d < cutoff2 self)
                     (take (nat i) (minimum_image_distance (Geom self) (coords ! nat i) coords)
                      @ drop (Suc (nat i))
                          (minimum_image_distance (Geom self) (coords ! nat i) coords)))))"
  using assms
  by (simp add: get_particle_energy_def np_index_in_range np_delete_in_range Let_def)

lemma np_index_out_of_range:
  "i < - int (length a) \<or> int (length a) \<le> i \<Longrightarrow> np_index a i = Inl IndexError"
  by (simp add: np_index_def Let_def)

lemma np_index_negative:
  "1 \<le> k \<Longrightarrow> k \<le> length a \<Longrightarrow> np_index a (- int k) = Inr (a ! (length a - k))"
  by (simp add: np_index_def Let_def nat_diff_distrib' algebra_simps)

lemma np_delete_negative:
  "1 \<le> k \<Longrightarrow> k \<le> length a \<Longrightarrow>
   np_delete a (- int k) = Inr (take (length a - k) a @ drop (Suc (length a - k)) a)"
  by (simp add: np_delete_def Let_def nat_diff_distrib' algebra_simps)

section \<open>Evaluation on the example with two particles\<close>

lemmas eval_simps =
  get_particle_energy_def np_index_def np_delete_def open_box_def
  lennard_jones_potential_array_def lj_value_def Let_def power_divide

lemma pair_at_two_coordinates: "coordinates (Geom pair_at_two) = [(0, 0, 0), (2, 0, 0)]"
  by (simp add: pair_at_two_def open_box_def)

lemma pair_at_two_energy:
  "get_particle_energy pair_at_two 0 (coordinates (Geom pair_at_two)) = Inr (Some (- 63 / 1024))"
  "get_particle_energy pair_at_two 1 (coordinates (Geom pair_at_two)) = Inr (Some (- 63 / 1024))"
  by (simp_all add: pair_at_two_def eval_simps)

section \<open>Per-particle energy: the neighbours within the cutoff\<close>

text \<open>
  C1. For a particle index \<open>i\<close> in \<open>[0, N)\<close> and a geometry whose distance operation returns
  one squared distance per particle, \<^verbatim>\<open>get_particle_energy\<close> returns the sum of the pair
  potential over exactly the indices \<open>j \<noteq> i\<close> whose squared distance to \<open>i\<close> is strictly below
  \<open>cutoff2\<close>: the entry at position \<open>i\<close> is removed before the filter. A retained distance of
  zero makes the float sum non-finite.
\<close>

theorem particle_energy_is_cutoff_sum:
  assumes "0 \<le> i" and "i < int (length coords)"
    and "length (minimum_image_distance (Geom self) (coords ! nat i) coords) = length coords"
  shows "get_particle_energy self i coords =
           (let rij2 = minimum_image_distance (Geom self) (coords ! nat i) coords;
                near = {j. j < length coords \<and> j \<noteq> nat i \<and> rij2 ! j < cutoff2 self}
            in Inr (if \<exists>j \<in> near. rij2 ! j = 0 then None
                    else Some (\<Sum>j \<in> near. lj_value (rij2 ! j))))"
proof -
  let ?d = "minimum_image_distance (Geom self) (coords ! nat i) coords"
  let ?P = "\<lambda>d. d < cutoff2 self"
  let ?red = "take (nat i) ?d @ drop (Suc (nat i)) ?d"
  let ?near = "{j. j < length coords \<and> j \<noteq> nat i \<and> ?d ! j < cutoff2 self}"
  have k: "nat i < length ?d"
    using assms by simp
  have zero: "0 \<in> set (filter ?P ?red) \<longleftrightarrow> (\<exists>j \<in> ?near. ?d ! j = 0)"
    unfolding set_filter set_delete_nth [OF k] using assms(3) by auto
  have total: "sum_list (map lj_value (filter ?P ?red)) = (\<Sum>j \<in> ?near. lj_value (?d ! j))"
    unfolding sum_list_filter_delete_nth [OF k] using assms(3) by simp
  have "get_particle_energy self i coords
      = Inr (np_sum (lennard_jones_potential_array (filter ?P ?red)))"
    using assms by (rule get_particle_energy_in_range)
  also have "\<dots> = Inr (if \<exists>j \<in> ?near. ?d ! j = 0 then None
                        else Some (\<Sum>j \<in> ?near. lj_value (?d ! j)))"
    unfolding np_sum_lj_array zero total ..
  finally show ?thesis
    by (simp add: Let_def)
qed

theorem particle_energy_is_cutoff_sum_witness:
  "(0::int) \<le> 0 \<and> 0 < int (length (coordinates (Geom three_in_a_row)))
   \<and> length (minimum_image_distance (Geom three_in_a_row)
         (coordinates (Geom three_in_a_row) ! nat 0) (coordinates (Geom three_in_a_row)))
       = length (coordinates (Geom three_in_a_row))
   \<and> get_particle_energy three_in_a_row 0 (coordinates (Geom three_in_a_row))
       = Inr (Some (- 63 / 1024))"
proof -
  let ?cs = "coordinates (Geom three_in_a_row)"
  have cs: "?cs = [(0, 0, 0), (2, 0, 0), (5, 0, 0)]"
    by (simp add: three_in_a_row_def open_box_def)
  have h: "(0::int) \<le> 0" "0 < int (length ?cs)"
    "length (minimum_image_distance (Geom three_in_a_row) (?cs ! nat 0) ?cs) = length ?cs"
    by (simp_all add: three_in_a_row_def open_box_def)
  have near: "{j. j < length ?cs \<and> j \<noteq> nat 0
                 \<and> minimum_image_distance (Geom three_in_a_row) (?cs ! nat 0) ?cs ! j
                     < cutoff2 three_in_a_row} = {1}"
    unfolding cs by (auto simp: three_in_a_row_def open_box_def less_Suc_eq numeral_3_eq_3)
  have "get_particle_energy three_in_a_row 0 ?cs = Inr (Some (lj_value 4))"
    using particle_energy_is_cutoff_sum [OF h]
    unfolding Let_def near by (simp add: three_in_a_row_def open_box_def)
  then show ?thesis
    using h by (simp add: lj_value_def power_divide)
qed

section \<open>Total pair energy: half the sum over all particles\<close>

lemma np_add_assoc: "np_add (np_add a b) c = np_add a (np_add b c)"
  by (cases a; cases b; cases c) simp_all

lemma np_add_zero_left: "np_add (Some 0) x = x"
  by (cases x) simp_all

lemma pair_energy_loop_returns:
  assumes "\<And>i. i \<in> set idx \<Longrightarrow>
             get_particle_energy self (int i) (coordinates (Geom self)) = Inr (e i)"
  shows "pair_energy_loop self idx acc = Inr (np_add acc (np_sum (map e idx)))"
  using assms
proof (induction idx arbitrary: acc)
  case Nil
  show ?case by (cases acc) simp_all
next
  case (Cons i idx)
  have "pair_energy_loop self (i # idx) acc = pair_energy_loop self idx (np_add acc (e i))"
    using Cons.prems [of i] by simp
  also have "\<dots> = Inr (np_add (np_add acc (e i)) (np_sum (map e idx)))"
    using Cons.prems by (intro Cons.IH) simp
  finally show ?case
    by (simp add: np_add_assoc)
qed

lemma np_sum_finite: "np_sum (map (\<lambda>i. Some (v i)) idx) = Some (sum_list (map v idx))"
  by (induction idx) simp_all

lemma total_pair_energy_returns:
  assumes "\<And>i. i < length (coordinates (Geom self)) \<Longrightarrow>
             get_particle_energy self (int i) (coordinates (Geom self)) = Inr (e i)"
  shows "calculate_total_pair_energy self =
           Inr (np_half (np_sum (map e [0..<length (coordinates (Geom self))])))"
proof -
  have "pair_energy_loop self [0..<length (coordinates (Geom self))] (Some 0)
      = Inr (np_add (Some 0) (np_sum (map e [0..<length (coordinates (Geom self))])))"
    using assms by (intro pair_energy_loop_returns) simp
  then show ?thesis
    by (simp add: calculate_total_pair_energy_def Let_def np_add_zero_left)
qed

text \<open>
  C2. When every call \<^verbatim>\<open>get_particle_energy(i)\<close> for \<open>i\<close> from \<open>0\<close> to \<open>N - 1\<close> returns,
  \<^verbatim>\<open>calculate_total_pair_energy\<close> returns the sum of their results divided by two, in float
  arithmetic and, when the results are finite, as a real number; with no particle it
  returns \<open>0\<close>.
\<close>

theorem total_pair_energy_is_half_sum:
  "((\<forall>i < length (coordinates (Geom self)).
        get_particle_energy self (int i) (coordinates (Geom self)) = Inr (e i))
      \<longrightarrow> calculate_total_pair_energy self =
            Inr (np_half (np_sum (map e [0..<length (coordinates (Geom self))]))))
   \<and> ((\<forall>i < length (coordinates (Geom self)).
        get_particle_energy self (int i) (coordinates (Geom self)) = Inr (Some (v i)))
      \<longrightarrow> calculate_total_pair_energy self =
            Inr (Some ((\<Sum>i < length (coordinates (Geom self)). v i) / 2)))
   \<and> (coordinates (Geom self) = [] \<longrightarrow> calculate_total_pair_energy self = Inr (Some 0))"
proof (intro conjI impI)
  assume "\<forall>i < length (coordinates (Geom self)).
            get_particle_energy self (int i) (coordinates (Geom self)) = Inr (e i)"
  then show "calculate_total_pair_energy self =
               Inr (np_half (np_sum (map e [0..<length (coordinates (Geom self))])))"
    by (intro total_pair_energy_returns) simp
next
  assume "\<forall>i < length (coordinates (Geom self)).
            get_particle_energy self (int i) (coordinates (Geom self)) = Inr (Some (v i))"
  then have "calculate_total_pair_energy self =
       Inr (np_half (np_sum (map (\<lambda>i. Some (v i)) [0..<length (coordinates (Geom self))])))"
    by (intro total_pair_energy_returns) simp
  then show "calculate_total_pair_energy self =
               Inr (Some ((\<Sum>i < length (coordinates (Geom self)). v i) / 2))"
    by (simp add: np_sum_finite np_half_def sum_list_sum_nth atLeast0LessThan)
next
  assume "coordinates (Geom self) = []"
  then show "calculate_total_pair_energy self = Inr (Some 0)"
    by (simp add: calculate_total_pair_energy_def np_half_def)
qed

theorem total_pair_energy_is_half_sum_witness:
  "length (coordinates (Geom pair_at_two)) = 2
   \<and> get_particle_energy pair_at_two 0 (coordinates (Geom pair_at_two))
       = Inr (Some (- 63 / 1024))
   \<and> get_particle_energy pair_at_two 1 (coordinates (Geom pair_at_two))
       = Inr (Some (- 63 / 1024))
   \<and> calculate_total_pair_energy pair_at_two = Inr (Some ((- 63 / 1024 + - 63 / 1024) / 2))"
proof -
  have len: "length (coordinates (Geom pair_at_two)) = 2"
    by (simp add: pair_at_two_coordinates)
  have each: "\<forall>i < length (coordinates (Geom pair_at_two)).
      get_particle_energy pair_at_two (int i) (coordinates (Geom pair_at_two))
        = Inr (Some (- 63 / 1024))"
    unfolding len using pair_at_two_energy by (auto simp: less_Suc_eq numeral_2_eq_2)
  have "calculate_total_pair_energy pair_at_two
      = Inr (Some ((\<Sum>i < length (coordinates (Geom pair_at_two)). - 63 / 1024) / 2))"
    using total_pair_energy_is_half_sum
            [of pair_at_two "\<lambda>i. Some (- 63 / 1024)" "\<lambda>i. - 63 / 1024"] each
    by blast
  then show ?thesis
    using pair_at_two_energy by (simp add: len)
qed

section \<open>Particle indices outside the array\<close>

text \<open>
  C10. For \<open>1 \<le> k \<le> N\<close> the call with index \<open>- k\<close> returns, and returns what the call with
  index \<open>N - k\<close> returns: the row lookup and the deletion both read \<open>- k\<close> as \<open>N - k\<close>, given
  a distance array with one entry per particle.
\<close>

theorem negative_index_counts_from_end:
  assumes "1 \<le> k" and "k \<le> length coords"
    and "length (minimum_image_distance (Geom self) (coords ! (length coords - k)) coords)
           = length coords"
  shows "get_particle_energy self (- int k) coords
           = get_particle_energy self (int (length coords - k)) coords
         \<and> (\<exists>e. get_particle_energy self (- int k) coords = Inr e)"
proof -
  let ?d = "minimum_image_distance (Geom self) (coords ! (length coords - k)) coords"
  let ?m = "length coords - k"
  have neg: "get_particle_energy self (- int k) coords
      = Inr (np_sum (lennard_jones_potential_array
               (filter (\<lambda>d. d < cutoff2 self) (take ?m ?d @ drop (Suc ?m) ?d))))"
    using assms
    by (simp add: get_particle_energy_def np_index_negative np_delete_negative Let_def)
  have "0 \<le> int ?m" "int ?m < int (length coords)"
    using assms by simp_all
  then have pos: "get_particle_energy self (int ?m) coords
      = Inr (np_sum (lennard_jones_potential_array
               (filter (\<lambda>d. d < cutoff2 self) (take ?m ?d @ drop (Suc ?m) ?d))))"
    using assms(3) by (simp add: get_particle_energy_in_range)
  show ?thesis
    using neg pos by simp
qed

theorem negative_index_counts_from_end_witness:
  "(1::nat) \<le> 1 \<and> 1 \<le> length (coordinates (Geom pair_at_two))
   \<and> length (minimum_image_distance (Geom pair_at_two)
        (coordinates (Geom pair_at_two) ! (length (coordinates (Geom pair_at_two)) - 1))
        (coordinates (Geom pair_at_two))) = length (coordinates (Geom pair_at_two))
   \<and> get_particle_energy pair_at_two (- 1) (coordinates (Geom pair_at_two))
       = get_particle_energy pair_at_two 1 (coordinates (Geom pair_at_two))
   \<and> get_particle_energy pair_at_two (- 1) (coordinates (Geom pair_at_two))
       = Inr (Some (- 63 / 1024))"
proof -
  have h: "(1::nat) \<le> 1" "1 \<le> length (coordinates (Geom pair_at_two))"
    "length (minimum_image_distance (Geom pair_at_two)
        (coordinates (Geom pair_at_two) ! (length (coordinates (Geom pair_at_two)) - 1))
        (coordinates (Geom pair_at_two))) = length (coordinates (Geom pair_at_two))"
    by (simp_all add: pair_at_two_def open_box_def)
  have "get_particle_energy pair_at_two (- int 1) (coordinates (Geom pair_at_two))
      = get_particle_energy pair_at_two
          (int (length (coordinates (Geom pair_at_two)) - 1)) (coordinates (Geom pair_at_two))"
    using negative_index_counts_from_end [OF h] by simp
  then show ?thesis
    using h pair_at_two_energy by (simp add: pair_at_two_coordinates)
qed

text \<open>
  C6, as stated, fails: with two particles the index \<open>- 1\<close> lies outside \<open>[0, 2)\<close> and the call
  returns the energy of the last particle instead of raising.
\<close>

theorem negative_index_accepted:
  "get_particle_energy pair_at_two (- 1) (coordinates (Geom pair_at_two))
     = Inr (Some (- 63 / 1024))
   \<and> length (coordinates (Geom pair_at_two)) = 2"
  by (simp add: pair_at_two_def eval_simps)

text \<open>
  C6, amended. For every index \<open>i\<close> with \<open>i < - N\<close> or \<open>N \<le> i\<close> the call raises IndexError,
  whatever the geometry: the row lookup fails before the distance operation is called.
\<close>

theorem index_beyond_both_ends_raises:
  "i < - int (length coords) \<or> int (length coords) \<le> i \<Longrightarrow>
   get_particle_energy self i coords = Inl IndexError"
  by (simp add: get_particle_energy_def np_index_out_of_range)

theorem index_beyond_both_ends_raises_witness:
  "((- 3::int) < - int (length (coordinates (Geom pair_at_two)))
      \<or> int (length (coordinates (Geom pair_at_two))) \<le> - 3)
   \<and> get_particle_energy pair_at_two (- 3) (coordinates (Geom pair_at_two)) = Inl IndexError
   \<and> get_particle_energy pair_at_two 2 (coordinates (Geom pair_at_two)) = Inl IndexError"
  using index_beyond_both_ends_raises [of "- 3" "coordinates (Geom pair_at_two)" pair_at_two]
    index_beyond_both_ends_raises [of 2 "coordinates (Geom pair_at_two)" pair_at_two]
  by (simp add: pair_at_two_def open_box_def)

section \<open>No neighbour within the cutoff\<close>

lemma filter_delete_nth_empty:
  assumes "k < length xs" and "\<And>j. j < length xs \<Longrightarrow> j \<noteq> k \<Longrightarrow> \<not> P (xs ! j)"
  shows "filter P (take k xs @ drop (Suc k) xs) = []"
  unfolding filter_empty_conv set_delete_nth [OF assms(1)] using assms(2) by auto

lemma np_sum_zeros: "np_sum (map (\<lambda>i. Some 0) idx) = Some 0"
  by (induction idx) simp_all

lemma particle_energy_zero_beyond_cutoff:
  assumes "i < length coords"
    and "length (minimum_image_distance (Geom self) (coords ! i) coords) = length coords"
    and "\<And>j. j < length coords \<Longrightarrow> j \<noteq> i \<Longrightarrow>
           cutoff2 self \<le> minimum_image_distance (Geom self) (coords ! i) coords ! j"
  shows "get_particle_energy self (int i) coords = Inr (Some 0)"
proof -
  let ?d = "minimum_image_distance (Geom self) (coords ! i) coords"
  have k: "i < length ?d"
    using assms by simp
  have "filter (\<lambda>d. d < cutoff2 self) (take i ?d @ drop (Suc i) ?d) = []"
    using k assms(2,3) by (intro filter_delete_nth_empty) (auto simp: not_less)
  then show ?thesis
    using assms(1,2)
    by (simp add: get_particle_energy_in_range lennard_jones_potential_array_def)
qed

text \<open>
  C7. In a configuration where every squared distance between two different particles is
  at least \<open>cutoff2\<close> (and the distance operation returns one entry per particle), every
  call \<^verbatim>\<open>get_particle_energy(i)\<close> returns \<open>0\<close>, the sum over no entry, and
  \<^verbatim>\<open>calculate_total_pair_energy\<close> returns \<open>0\<close>. This holds for every particle count, so
  for every \<open>N \<ge> 2\<close>.
\<close>

theorem no_neighbours_zero_energy:
  assumes "\<forall>i < length (coordinates (Geom self)).
             length (minimum_image_distance (Geom self) (coordinates (Geom self) ! i)
                       (coordinates (Geom self))) = length (coordinates (Geom self))"
    and "\<forall>i < length (coordinates (Geom self)). \<forall>j < length (coordinates (Geom self)).
           j \<noteq> i \<longrightarrow>
           cutoff2 self \<le> minimum_image_distance (Geom self) (coordinates (Geom self) ! i)
                              (coordinates (Geom self)) ! j"
  shows "(\<forall>i < length (coordinates (Geom self)).
            get_particle_energy self (int i) (coordinates (Geom self)) = Inr (Some 0))
         \<and> calculate_total_pair_energy self = Inr (Some 0)"
proof -
  have each: "get_particle_energy self (int i) (coordinates (Geom self)) = Inr (Some 0)"
    if "i < length (coordinates (Geom self))" for i
    using that assms by (intro particle_energy_zero_beyond_cutoff) auto
  have "calculate_total_pair_energy self
      = Inr (np_half (np_sum (map (\<lambda>i. Some 0) [0..<length (coordinates (Geom self))])))"
    using each by (rule total_pair_energy_returns)
  then show ?thesis
    using each by (simp add: np_sum_zeros np_half_def)
qed

theorem no_neighbours_zero_energy_witness:
  "coordinates (Geom far_apart) = [(0, 0, 0), (4, 0, 0), (0, 5, 0)]
   \<and> cutoff2 far_apart = 9
   \<and> minimum_image_distance (Geom far_apart) (0, 0, 0) (coordinates (Geom far_apart))
       = [0, 16, 25]
   \<and> minimum_image_distance (Geom far_apart) (4, 0, 0) (coordinates (Geom far_apart))
       = [16, 0, 41]
   \<and> minimum_image_distance (Geom far_apart) (0, 5, 0) (coordinates (Geom far_apart))
       = [25, 41, 0]
   \<and> get_particle_energy far_apart 0 (coordinates (Geom far_apart)) = Inr (Some 0)
   \<and> get_particle_energy far_apart 1 (coordinates (Geom far_apart)) = Inr (Some 0)
   \<and> get_particle_energy far_apart 2 (coordinates (Geom far_apart)) = Inr (Some 0)
   \<and> calculate_total_pair_energy far_apart = Inr (Some 0)"
proof -
  let ?cs = "coordinates (Geom far_apart)"
  have cs: "?cs = [(0, 0, 0), (4, 0, 0), (0, 5, 0)]"
    by (simp add: far_apart_def open_box_def)
  have dist: "minimum_image_distance (Geom far_apart) (0, 0, 0) ?cs = [0, 16, 25]"
    "minimum_image_distance (Geom far_apart) (4, 0, 0) ?cs = [16, 0, 41]"
    "minimum_image_distance (Geom far_apart) (0, 5, 0) ?cs = [25, 41, 0]"
    "cutoff2 far_apart = 9"
    by (simp_all add: far_apart_def open_box_def)
  have len: "\<forall>i < length ?cs.
         length (minimum_image_distance (Geom far_apart) (?cs ! i) ?cs) = length ?cs"
    by (simp add: far_apart_def open_box_def)
  have far: "\<forall>i < length ?cs. \<forall>j < length ?cs. j \<noteq> i \<longrightarrow>
         cutoff2 far_apart \<le> minimum_image_distance (Geom far_apart) (?cs ! i) ?cs ! j"
    unfolding cs by (auto simp: far_apart_def open_box_def less_Suc_eq numeral_3_eq_3)
  have "(\<forall>i < length ?cs. get_particle_energy far_apart (int i) ?cs = Inr (Some 0))
        \<and> calculate_total_pair_energy far_apart = Inr (Some 0)"
    using no_neighbours_zero_energy [OF len far] .
  moreover have "0 < length ?cs" "1 < length ?cs" "2 < length ?cs"
    unfolding cs by simp_all
  ultimately have "get_particle_energy far_apart (int 0) ?cs = Inr (Some 0)"
    "get_particle_energy far_apart (int 1) ?cs = Inr (Some 0)"
    "get_particle_energy far_apart (int 2) ?cs = Inr (Some 0)"
    "calculate_total_pair_energy far_apart = Inr (Some 0)"
    by blast+
  then show ?thesis
    using cs dist by simp
qed

section \<open>Construction\<close>




section \<open>Tail correction: the formula and its symmetries\<close>

lemma tail_correction_value:
  "calculate_tail_correction self =
     (if cutoff self = 0 \<or> volume (Geom self) = 0 then Inl ZeroDivisionError
      else Inr (8 / 9 * pi * (real_of_int (num_particles (Geom self)) / volume (Geom self))
                  * real_of_int (num_particles (Geom self))
                  * ((1 / cutoff self) ^ 9 - 3 * (1 / cutoff self) ^ 3)))"
  by (simp add: calculate_tail_correction_def Let_def power_mult [symmetric])

text \<open>
  C4. \<^verbatim>\<open>calculate_tail_correction\<close> returns
  \<open>(8 / 9) * pi * (N / V) * N * ((1 / cutoff) ^ 9 - 3 * (1 / cutoff) ^ 3)\<close>, where \<open>N\<close> is
  \<^verbatim>\<open>Geom.num_particles\<close> and \<open>V\<close> is \<^verbatim>\<open>Geom.volume\<close>; where the formula has no value, at
  cutoff \<open>0\<close> or volume \<open>0\<close>, the division raises. Two evaluators with the same \<open>N\<close>, \<open>V\<close>
  and cutoff give the same result, whatever their coordinates.
\<close>

theorem tail_correction_formula:
  "calculate_tail_correction self =
     (if cutoff self = 0 \<or> volume (Geom self) = 0 then Inl ZeroDivisionError
      else Inr (8 / 9 * pi * (real_of_int (num_particles (Geom self)) / volume (Geom self))
                  * real_of_int (num_particles (Geom self))
                  * ((1 / cutoff self) ^ 9 - 3 * (1 / cutoff self) ^ 3)))
   \<and> (num_particles (Geom other) = num_particles (Geom self)
        \<and> volume (Geom other) = volume (Geom self) \<and> cutoff other = cutoff self
      \<longrightarrow> calculate_tail_correction other = calculate_tail_correction self)"
  by (simp add: tail_correction_value)

theorem tail_correction_formula_witness:
  "calculate_tail_correction pair_at_two
     = Inr (8 / 9 * pi * (2 / 1000) * 2 * (1 / 19683 - 3 / 27))
   \<and> num_particles (Geom (pair_at_two\<lparr>Geom := open_box [(7, 7, 7), (1, 2, 3)] 1000\<rparr>))
       = num_particles (Geom pair_at_two)
   \<and> volume (Geom (pair_at_two\<lparr>Geom := open_box [(7, 7, 7), (1, 2, 3)] 1000\<rparr>))
       = volume (Geom pair_at_two)
   \<and> cutoff (pair_at_two\<lparr>Geom := open_box [(7, 7, 7), (1, 2, 3)] 1000\<rparr>) = cutoff pair_at_two
   \<and> calculate_tail_correction (pair_at_two\<lparr>Geom := open_box [(7, 7, 7), (1, 2, 3)] 1000\<rparr>)
       = calculate_tail_correction pair_at_two"
  using tail_correction_formula
    [of pair_at_two "pair_at_two\<lparr>Geom := open_box [(7, 7, 7), (1, 2, 3)] 1000\<rparr>"]
  by (simp add: pair_at_two_def open_box_def power_divide)




section \<open>Statements that write nothing\<close>

lemma unchanged_refl: "unchanged s s"
  by (simp add: unchanged_def)

lemma unchanged_trans: "unchanged s s' \<Longrightarrow> unchanged s' s'' \<Longrightarrow> unchanged s s''"
  by (auto simp: unchanged_def intro: prefix_order.trans)

lemma read_only_returns: "read_only (returns x)"
  by (simp add: read_only_def returns_def unchanged_refl)

lemma read_only_raises: "read_only (raises e)"
  by (simp add: read_only_def raises_def unchanged_refl)

lemma read_only_ill_typed: "read_only ill_typed"
  by (simp add: read_only_def ill_typed_def unchanged_refl)

lemma read_only_attr: "read_only (attr field)"
  by (simp add: read_only_def attr_def unchanged_refl)

lemma read_only_new_array: "read_only (new_array v)"
  by (simp add: read_only_def new_array_def unchanged_def)

lemma read_only_bind:
  assumes "read_only f" and "\<And>x. read_only (g x)"
  shows "read_only (bind_st f g)"
  unfolding read_only_def
proof
  fix s
  obtain r s' where f: "f s = (r, s')"
    by (cases "f s")
  have first: "unchanged s s'"
    using assms(1) f by (auto simp: read_only_def dest: spec [of _ s])
  show "unchanged s (snd (bind_st f g s))"
  proof (cases r)
    case (Returned x)
    have "unchanged s' (snd (g x s'))"
      using assms(2) [of x] by (simp add: read_only_def)
    with first show ?thesis
      using f Returned by (auto simp: bind_st_def intro: unchanged_trans)
  next
    case (Raised e)
    with first f show ?thesis by (simp add: bind_st_def)
  next
    case Ill_typed
    with first f show ?thesis by (simp add: bind_st_def)
  qed
qed

lemma read_only_the_geom: "read_only (the_geom g)"
  by (auto simp: read_only_def the_geom_def unchanged_refl split: option.splits)

lemma read_only_the_coords: "read_only (the_coords a)"
  by (auto simp: read_only_def the_coords_def unchanged_refl split: option.splits ndarray.splits)

lemma read_only_the_reals: "read_only (the_reals a)"
  by (auto simp: read_only_def the_reals_def unchanged_refl split: option.splits ndarray.splits)

lemma read_only_the_floats: "read_only (the_floats a)"
  by (auto simp: read_only_def the_floats_def unchanged_refl split: option.splits ndarray.splits)

lemma read_only_the_bools: "read_only (the_bools a)"
  by (auto simp: read_only_def the_bools_def unchanged_refl split: option.splits ndarray.splits)

lemmas read_only_basic =
  read_only_returns read_only_raises read_only_ill_typed read_only_attr read_only_new_array
  read_only_the_coords read_only_the_reals read_only_the_floats read_only_the_bools
  read_only_the_geom

lemma read_only_Geom_attr: "read_only (Geom_attr field)"
  unfolding Geom_attr_def by (intro read_only_bind read_only_basic)

lemma read_only_getitem_row: "read_only (getitem_row a i)"
  unfolding getitem_row_def Let_def
  by (intro read_only_bind read_only_the_coords) (simp add: read_only_basic)

lemma read_only_np_delete_st: "read_only (np_delete_st a i)"
  unfolding np_delete_st_def
  by (intro read_only_bind read_only_the_reals) (simp add: read_only_basic split: sum.splits)

lemma read_only_np_less: "read_only (np_less a c)"
  unfolding np_less_def by (intro read_only_bind read_only_basic)

lemma read_only_getitem_mask: "read_only (getitem_mask a m)"
  unfolding getitem_mask_def
  by (intro read_only_bind read_only_the_reals read_only_the_bools) (simp add: read_only_basic)

lemma read_only_np_reciprocal: "read_only (np_reciprocal a)"
  unfolding np_reciprocal_def by (intro read_only_bind read_only_basic)

lemma read_only_np_power: "read_only (np_power a k)"
  unfolding np_power_def by (intro read_only_bind read_only_basic)

lemma read_only_np_subtract: "read_only (np_subtract a b)"
  unfolding np_subtract_def
  by (intro read_only_bind read_only_the_floats) (simp add: read_only_basic)

lemma read_only_np_scale: "read_only (np_scale c a)"
  unfolding np_scale_def by (intro read_only_bind read_only_basic)

lemma read_only_np_sum_st: "read_only (np_sum_st a)"
  unfolding np_sum_st_def by (intro read_only_bind read_only_basic)

lemmas read_only_numpy =
  read_only_getitem_row read_only_np_delete_st read_only_np_less read_only_getitem_mask
  read_only_np_reciprocal read_only_np_power read_only_np_subtract read_only_np_scale
  read_only_np_sum_st

lemma read_only_lennard_jones_potential_st: "read_only (lennard_jones_potential_st a)"
  unfolding lennard_jones_potential_st_def by (intro read_only_bind read_only_numpy)

lemma read_only_lennard_jones_potential_number: "read_only (lennard_jones_potential_number r)"
  by (simp add: lennard_jones_potential_number_def read_only_basic)

lemma read_only_get_particle_energy_st:
  assumes "\<And>g r_i coords. read_only (distance g r_i coords)"
  shows "read_only (get_particle_energy_st distance i coords)"
  unfolding get_particle_energy_st_def
  by (intro read_only_bind read_only_numpy read_only_attr assms
        read_only_lennard_jones_potential_st)

lemma read_only_pair_energy_loop_st:
  assumes "\<And>g r_i coords. read_only (distance g r_i coords)"
  shows "read_only (pair_energy_loop_st distance idx e_total)"
proof (induction idx arbitrary: e_total)
  case Nil
  show ?case by (simp add: read_only_returns)
next
  case (Cons i idx)
  show ?case
    unfolding pair_energy_loop_st.simps
    by (intro read_only_bind read_only_Geom_attr read_only_get_particle_energy_st assms Cons.IH)
qed

lemma read_only_calculate_total_pair_energy_st:
  assumes "\<And>g r_i coords. read_only (distance g r_i coords)"
  shows "read_only (calculate_total_pair_energy_st distance)"
  unfolding calculate_total_pair_energy_st_def
  by (intro read_only_bind read_only_basic read_only_Geom_attr read_only_pair_energy_loop_st assms)

lemma read_only_calculate_tail_correction_st: "read_only calculate_tail_correction_st"
  unfolding calculate_tail_correction_st_def Let_def
  by (intro read_only_bind read_only_attr read_only_Geom_attr)
     (auto simp: read_only_raises
           intro!: read_only_bind read_only_Geom_attr read_only_returns read_only_raises)

lemma read_only_computed_distance: "read_only (computed_distance f g r_i coords)"
  unfolding computed_distance_def
  by (intro read_only_bind read_only_the_coords) (simp add: read_only_basic)

lemma read_only_after:
  assumes "\<And>g r_i coords. read_only (distance g r_i coords)"
  shows "unchanged s (after distance c s)"
proof (cases c)
  case (LennardJones r)
  then show ?thesis
    using read_only_lennard_jones_potential_number [of r] by (simp add: read_only_def)
next
  case (LennardJonesArray a)
  then show ?thesis
    using read_only_lennard_jones_potential_st [of a] by (simp add: read_only_def)
next
  case (ParticleEnergy i coords)
  then show ?thesis
    using read_only_get_particle_energy_st [of distance i coords, OF assms]
    by (simp add: read_only_def)
next
  case TotalPairEnergy
  then show ?thesis
    using read_only_calculate_total_pair_energy_st [of distance, OF assms]
    by (simp add: read_only_def)
next
  case TailCorrection
  then show ?thesis
    using read_only_calculate_tail_correction_st by (simp add: read_only_def)
qed

lemma reachable_cutoff2:
  assumes "\<And>g r_i coords. read_only (distance g r_i coords)"
    and "reachable distance s"
  shows "self_cutoff2 s = self_cutoff s * self_cutoff s"
  using assms(2)
proof (induction rule: reachable.induct)
  case (constructed G c s)
  show ?case
    by (simp add: Energy_init_st_def power2_eq_square)
next
  case (called s c)
  have "unchanged s (after distance c s)"
    using assms(1) by (rule read_only_after)
  with called.IH show ?case
    by (simp add: unchanged_def)
qed

section \<open>The statements compute what the functions compute\<close>

lemma mask_is_filter: "map fst (filter snd (zip xs (map P xs))) = filter P xs"
  by (induction xs) simp_all

lemma lj_steps:
  "map (map_option (\<lambda>x. 4 * x))
     (map (\<lambda>(x, y). np_sub x y)
        (zip (map (map_option (\<lambda>x. x ^ 2))
                (map (map_option (\<lambda>x. x ^ 3))
                   (map (\<lambda>r. if r = 0 then None else Some (1 / r)) xs)))
             (map (map_option (\<lambda>x. x ^ 3))
                (map (\<lambda>r. if r = 0 then None else Some (1 / r)) xs))))
   = lennard_jones_potential_array xs"
  by (induction xs) (simp_all add: lennard_jones_potential_array_def lj_value_def Let_def)

lemma new_array_address: "fst (new_array v s) = Returned (length (arrays s))"
  by (simp add: new_array_def)

lemma new_array_holds: "array_at (length (arrays s)) (snd (new_array v s)) = Some v"
  by (simp add: new_array_def array_at_def)

lemma new_array_keeps:
  "array_at a s = Some w \<Longrightarrow> array_at a (snd (new_array v s)) = Some w"
  by (auto simp: new_array_def array_at_def nth_append split: if_splits)

lemma bind_run: "fst (f s) = Returned x \<Longrightarrow> bind_st f g s = g x (snd (f s))"
  by (cases "f s") (simp add: bind_st_def)

lemma bind_raised: "fst (f s) = Raised e \<Longrightarrow> fst (bind_st f g s) = Raised e"
  by (cases "f s") (simp add: bind_st_def)

lemma np_reciprocal_run:
  "array_at a s = Some (Reals xs) \<Longrightarrow>
   np_reciprocal a s = new_array (Floats (map (\<lambda>r. if r = 0 then None else Some (1 / r)) xs)) s"
  by (simp add: np_reciprocal_def bind_st_def the_reals_def)

lemma np_power_run:
  "array_at a s = Some (Floats xs) \<Longrightarrow>
   np_power a k s = new_array (Floats (map (map_option (\<lambda>x. x ^ k)) xs)) s"
  by (simp add: np_power_def bind_st_def the_floats_def)

lemma np_subtract_run:
  "array_at a s = Some (Floats xs) \<Longrightarrow> array_at b s = Some (Floats ys) \<Longrightarrow>
   length xs = length ys \<Longrightarrow>
   np_subtract a b s = new_array (Floats (map (\<lambda>(x, y). np_sub x y) (zip xs ys))) s"
  by (simp add: np_subtract_def bind_st_def the_floats_def)

lemma np_scale_run:
  "array_at a s = Some (Floats xs) \<Longrightarrow>
   np_scale c a s = new_array (Floats (map (map_option (\<lambda>x. c * x)) xs)) s"
  by (simp add: np_scale_def bind_st_def the_floats_def)

lemma np_less_run:
  "array_at a s = Some (Reals xs) \<Longrightarrow>
   np_less a c s = new_array (Bools (map (\<lambda>d. d < c) xs)) s"
  by (simp add: np_less_def bind_st_def the_reals_def)

lemma getitem_mask_run:
  "array_at a s = Some (Reals xs) \<Longrightarrow> array_at m s = Some (Bools bs) \<Longrightarrow>
   length bs = length xs \<Longrightarrow>
   getitem_mask a m s = new_array (Reals (map fst (filter snd (zip xs bs)))) s"
  by (simp add: getitem_mask_def bind_st_def the_reals_def the_bools_def)

lemma np_delete_st_run:
  "array_at a s = Some (Reals xs) \<Longrightarrow>
   np_delete_st a i s =
     (case np_delete xs i of Inl e \<Rightarrow> raises e s | Inr red \<Rightarrow> new_array (Reals red) s)"
  by (simp add: np_delete_st_def bind_st_def the_reals_def split: sum.splits)

lemma np_sum_st_run:
  "array_at a s = Some (Floats xs) \<Longrightarrow> np_sum_st a s = (Returned (np_sum xs), s)"
  by (simp add: np_sum_st_def bind_st_def the_floats_def returns_def)

lemma lennard_jones_potential_st_result:
  assumes "array_at a s = Some (Reals xs)"
  shows "\<exists>pot. fst (lennard_jones_potential_st a s) = Returned pot
            \<and> array_at pot (snd (lennard_jones_potential_st a s))
                = Some (Floats (lennard_jones_potential_array xs))"
proof -
  let ?r = "map (\<lambda>r. if r = 0 then None else Some (1 / r)) xs"
  let ?s6 = "map (map_option (\<lambda>x. x ^ 3)) ?r"
  let ?s12 = "map (map_option (\<lambda>x. x ^ 2)) ?s6"
  let ?d = "map (\<lambda>(x, y). np_sub x y) (zip ?s12 ?s6)"
  let ?lj = "map (map_option (\<lambda>x. 4 * x)) ?d"
  define s1 where "s1 = snd (new_array (Floats ?r) s)"
  define s2 where "s2 = snd (new_array (Floats ?s6) s1)"
  define s3 where "s3 = snd (new_array (Floats ?s12) s2)"
  define s4 where "s4 = snd (new_array (Floats ?d) s3)"
  have a1: "array_at (length (arrays s)) s1 = Some (Floats ?r)"
    unfolding s1_def by (rule new_array_holds)
  have a2: "array_at (length (arrays s1)) s2 = Some (Floats ?s6)"
    unfolding s2_def by (rule new_array_holds)
  have a3: "array_at (length (arrays s2)) s3 = Some (Floats ?s12)"
    unfolding s3_def by (rule new_array_holds)
  have a2': "array_at (length (arrays s1)) s3 = Some (Floats ?s6)"
    unfolding s3_def using a2 by (rule new_array_keeps)
  have a4: "array_at (length (arrays s3)) s4 = Some (Floats ?d)"
    unfolding s4_def by (rule new_array_holds)
  have "lennard_jones_potential_st a s
      = bind_st (np_power (length (arrays s)) 3) (\<lambda>sig_by_r6.
        bind_st (np_power sig_by_r6 2) (\<lambda>sig_by_r12.
        bind_st (np_subtract sig_by_r12 sig_by_r6) (\<lambda>difference.
        np_scale 4 difference))) s1"
    unfolding lennard_jones_potential_st_def s1_def
    by (subst bind_run [of "np_reciprocal a" s "length (arrays s)"])
       (simp_all add: np_reciprocal_run [OF assms] new_array_address)
  also have "\<dots> = bind_st (np_power (length (arrays s1)) 2) (\<lambda>sig_by_r12.
        bind_st (np_subtract sig_by_r12 (length (arrays s1))) (\<lambda>difference.
        np_scale 4 difference)) s2"
    unfolding s2_def
    by (subst bind_run [of "np_power (length (arrays s)) 3" s1 "length (arrays s1)"])
       (simp_all add: np_power_run [OF a1] new_array_address)
  also have "\<dots> = bind_st (np_subtract (length (arrays s2)) (length (arrays s1)))
        (\<lambda>difference. np_scale 4 difference) s3"
    unfolding s3_def
    by (subst bind_run [of "np_power (length (arrays s1)) 2" s2 "length (arrays s2)"])
       (simp_all add: np_power_run [OF a2] new_array_address)
  also have "\<dots> = np_scale 4 (length (arrays s3)) s4"
    unfolding s4_def
    by (subst bind_run [of "np_subtract (length (arrays s2)) (length (arrays s1))" s3
                           "length (arrays s3)"])
       (simp_all add: np_subtract_run [OF a3 a2'] new_array_address)
  also have "\<dots> = new_array (Floats ?lj) s4"
    by (rule np_scale_run [OF a4])
  finally have run: "lennard_jones_potential_st a s = new_array (Floats ?lj) s4" .
  have "?lj = lennard_jones_potential_array xs"
    by (rule lj_steps)
  then show ?thesis
    unfolding run using new_array_address [of "Floats ?lj" s4] new_array_holds [of s4 "Floats ?lj"]
    by auto
qed

lemma bind_new:
  "f s = new_array v s \<Longrightarrow> bind_st f g s = g (length (arrays s)) (snd (new_array v s))"
  by (simp add: bind_st_def new_array_def)

lemma new_array_cutoff2: "self_cutoff2 (snd (new_array v s)) = self_cutoff2 s"
  by (simp add: new_array_def)

lemma computed_distance_run:
  "array_at coords s = Some (Coords cs) \<Longrightarrow> k < length cs \<Longrightarrow>
   computed_distance f g (coords, k) coords s = new_array (Reals (f (cs ! k) cs)) s"
  by (simp add: computed_distance_def bind_st_def the_coords_def)

lemma getitem_row_run:
  "array_at a s = Some (Coords cs) \<Longrightarrow>
   getitem_row a i s =
     (if i < - int (length cs) \<or> int (length cs) \<le> i then (Raised IndexError, s)
      else (Returned (a, nat (if i < 0 then i + int (length cs) else i)), s))"
  by (simp add: getitem_row_def bind_st_def the_coords_def Let_def raises_def returns_def)

lemma get_particle_energy_st_result:
  assumes coords: "array_at coords s = Some (Coords cs)"
    and f: "minimum_image_distance (Geom self) = f"
    and c2: "cutoff2 self = self_cutoff2 s"
  shows "fst (get_particle_energy_st (computed_distance f) i coords s)
           = outcome_of (get_particle_energy self i cs)"
proof (cases "i < - int (length cs) \<or> int (length cs) \<le> i")
  case True
  then have "fst (getitem_row coords i s) = Raised IndexError"
    by (simp add: getitem_row_run [OF coords])
  then have "fst (get_particle_energy_st (computed_distance f) i coords s) = Raised IndexError"
    unfolding get_particle_energy_st_def by (rule bind_raised)
  moreover have "get_particle_energy self i cs = Inl IndexError"
    using True by (simp add: get_particle_energy_def np_index_def Let_def)
  ultimately show ?thesis by simp
next
  case False
  define k where "k = nat (if i < 0 then i + int (length cs) else i)"
  have k: "k < length cs"
    using False by (auto simp: k_def)
  have row: "getitem_row coords i s = (Returned (coords, k), s)"
    using False by (simp add: getitem_row_run [OF coords] k_def)
  have idx: "np_index cs i = Inr (cs ! k)"
    using False by (simp add: np_index_def Let_def k_def)
  define rij2 where "rij2 = f (cs ! k) cs"
  define s1 where "s1 = snd (new_array (Reals rij2) s)"
  have a1: "array_at (length (arrays s)) s1 = Some (Reals rij2)"
    unfolding s1_def by (rule new_array_holds)
  have step1: "get_particle_energy_st (computed_distance f) i coords s
      = bind_st (np_delete_st (length (arrays s)) i) (\<lambda>red.
        bind_st (attr self_cutoff2) (\<lambda>c2.
        bind_st (np_less red c2) (\<lambda>keep.
        bind_st (getitem_mask red keep) (\<lambda>near.
        bind_st (lennard_jones_potential_st near) (\<lambda>pot.
        np_sum_st pot))))) s1"
    unfolding get_particle_energy_st_def s1_def rij2_def
    by (simp add: bind_st_def row attr_def computed_distance_run [OF coords k] new_array_def)
  show ?thesis
  proof (cases "np_delete rij2 i")
    case (Inl e)
    then have "fst (np_delete_st (length (arrays s)) i s1) = Raised e"
      by (simp add: np_delete_st_run [OF a1] raises_def)
    then have "fst (get_particle_energy_st (computed_distance f) i coords s) = Raised e"
      unfolding step1 by (rule bind_raised)
    moreover have "get_particle_energy self i cs = Inl e"
      using Inl by (simp add: get_particle_energy_def idx f rij2_def Let_def)
    ultimately show ?thesis by simp
  next
    case (Inr red)
    let ?c = "self_cutoff2 s"
    let ?keep = "map (\<lambda>d. d < ?c) red"
    let ?near = "filter (\<lambda>d. d < ?c) red"
    define s2 where "s2 = snd (new_array (Reals red) s1)"
    define s3 where "s3 = snd (new_array (Bools ?keep) s2)"
    define s4 where "s4 = snd (new_array (Reals ?near) s3)"
    have del: "np_delete_st (length (arrays s)) i s1 = new_array (Reals red) s1"
      using Inr by (simp add: np_delete_st_run [OF a1])
    have a2: "array_at (length (arrays s1)) s2 = Some (Reals red)"
      unfolding s2_def by (rule new_array_holds)
    have c: "self_cutoff2 s2 = ?c"
      by (simp add: s2_def s1_def new_array_cutoff2)
    have a2': "array_at (length (arrays s1)) s3 = Some (Reals red)"
      unfolding s3_def using a2 by (rule new_array_keeps)
    have a3: "array_at (length (arrays s2)) s3 = Some (Bools ?keep)"
      unfolding s3_def by (rule new_array_holds)
    have sel: "getitem_mask (length (arrays s1)) (length (arrays s2)) s3
                 = new_array (Reals ?near) s3"
      using getitem_mask_run [OF a2' a3] by (simp add: mask_is_filter)
    have a4: "array_at (length (arrays s3)) s4 = Some (Reals ?near)"
      unfolding s4_def by (rule new_array_holds)
    obtain pot where pot: "fst (lennard_jones_potential_st (length (arrays s3)) s4) = Returned pot"
      "array_at pot (snd (lennard_jones_potential_st (length (arrays s3)) s4))
         = Some (Floats (lennard_jones_potential_array ?near))"
      using lennard_jones_potential_st_result [OF a4] by blast
    have "get_particle_energy_st (computed_distance f) i coords s
        = bind_st (attr self_cutoff2) (\<lambda>c2.
          bind_st (np_less (length (arrays s1)) c2) (\<lambda>keep.
          bind_st (getitem_mask (length (arrays s1)) keep) (\<lambda>near.
          bind_st (lennard_jones_potential_st near) (\<lambda>pot.
          np_sum_st pot)))) s2"
      unfolding step1 s2_def
      by (simp add: bind_new [of "np_delete_st (length (arrays s)) i" s1, OF del])
    also have "\<dots> = bind_st (np_less (length (arrays s1)) ?c) (\<lambda>keep.
          bind_st (getitem_mask (length (arrays s1)) keep) (\<lambda>near.
          bind_st (lennard_jones_potential_st near) (\<lambda>pot.
          np_sum_st pot))) s2"
      by (simp add: bind_st_def attr_def c)
    also have "\<dots> = bind_st (getitem_mask (length (arrays s1)) (length (arrays s2))) (\<lambda>near.
          bind_st (lennard_jones_potential_st near) (\<lambda>pot.
          np_sum_st pot)) s3"
      unfolding s3_def
      by (simp add: bind_new [of "np_less (length (arrays s1)) ?c" s2, OF np_less_run [OF a2]])
    also have "\<dots> = bind_st (lennard_jones_potential_st (length (arrays s3))) (\<lambda>pot.
          np_sum_st pot) s4"
      unfolding s4_def
      by (simp add: bind_new [of "getitem_mask (length (arrays s1)) (length (arrays s2))" s3,
                              OF sel])
    also have "\<dots> = np_sum_st pot (snd (lennard_jones_potential_st (length (arrays s3)) s4))"
      by (rule bind_run [of "lennard_jones_potential_st (length (arrays s3))" s4, OF pot(1)])
    also have "\<dots> = (Returned (np_sum (lennard_jones_potential_array ?near)),
                       snd (lennard_jones_potential_st (length (arrays s3)) s4))"
      using pot(2) by (rule np_sum_st_run)
    finally have "fst (get_particle_energy_st (computed_distance f) i coords s)
        = Returned (np_sum (lennard_jones_potential_array ?near))"
      by simp
    moreover have "get_particle_energy self i cs
        = Inr (np_sum (lennard_jones_potential_array ?near))"
      using Inr by (simp add: get_particle_energy_def idx f rij2_def c2 Let_def)
    ultimately show ?thesis by simp
  qed
qed

lemma unchanged_array_at:
  "unchanged s s' \<Longrightarrow> array_at a s = Some v \<Longrightarrow> array_at a s' = Some v"
  by (auto simp: unchanged_def array_at_def prefix_def nth_append split: if_splits)

lemma unchanged_geom_at:
  "unchanged s s' \<Longrightarrow> geom_at g s = Some G \<Longrightarrow> geom_at g s' = Some G"
  by (auto simp: unchanged_def geom_at_def prefix_def nth_append split: if_splits)

lemma unchanged_evaluator_of:
  assumes "unchanged s s'" and "evaluator_of f s = Some self"
  shows "evaluator_of f s' = Some self"
proof -
  obtain G cs where G: "geom_at (self_Geom s) s = Some G"
    and cs: "array_at (Geom_coordinates G) s = Some (Coords cs)"
    and self: "self = \<lparr>Geom = \<lparr>coordinates = cs, num_particles = Geom_num_particles G,
                              volume = Geom_volume G, minimum_image_distance = f\<rparr>,
                     cutoff = self_cutoff s, cutoff2 = self_cutoff2 s\<rparr>"
    using assms(2) by (auto simp: evaluator_of_def split: option.splits ndarray.splits)
  have "geom_at (self_Geom s') s' = Some G"
    using unchanged_geom_at [OF assms(1) G] assms(1) by (simp add: unchanged_def)
  moreover have "array_at (Geom_coordinates G) s' = Some (Coords cs)"
    using assms(1) cs by (rule unchanged_array_at)
  moreover have "self_cutoff s' = self_cutoff s" "self_cutoff2 s' = self_cutoff2 s"
    using assms(1) by (simp_all add: unchanged_def)
  ultimately show ?thesis
    by (simp add: evaluator_of_def self)
qed

lemma the_coords_run: "array_at a s = Some (Coords cs) \<Longrightarrow> the_coords a s = (Returned cs, s)"
  by (simp add: the_coords_def)

lemma Geom_attr_run:
  "geom_at (self_Geom s) s = Some G \<Longrightarrow> Geom_attr field s = (Returned (field G), s)"
  by (simp add: Geom_attr_def bind_st_def attr_def the_geom_def returns_def)

lemma evaluator_of_parts:
  assumes "evaluator_of f s = Some self"
  obtains G where "geom_at (self_Geom s) s = Some G"
    and "array_at (Geom_coordinates G) s = Some (Coords (coordinates (Geom self)))"
    and "num_particles (Geom self) = Geom_num_particles G"
    and "volume (Geom self) = Geom_volume G"
    and "minimum_image_distance (Geom self) = f"
    and "cutoff self = self_cutoff s" and "cutoff2 self = self_cutoff2 s"
  using assms by (auto simp: evaluator_of_def split: option.splits ndarray.splits)

lemma pair_energy_loop_st_result:
  assumes "evaluator_of f s = Some self"
  shows "fst (pair_energy_loop_st (computed_distance f) idx acc s)
           = outcome_of (pair_energy_loop self idx acc)"
  using assms
proof (induction idx arbitrary: s acc)
  case Nil
  show ?case by (simp add: returns_def)
next
  case (Cons i idx)
  obtain G where G: "geom_at (self_Geom s) s = Some G"
    and cs: "array_at (Geom_coordinates G) s = Some (Coords (coordinates (Geom self)))"
    and f: "minimum_image_distance (Geom self) = f"
    and c2: "cutoff2 self = self_cutoff2 s"
    using Cons.prems by (rule evaluator_of_parts)
  let ?call = "get_particle_energy_st (computed_distance f) (int i) (Geom_coordinates G)"
  have res: "fst (?call s)
      = outcome_of (get_particle_energy self (int i) (coordinates (Geom self)))"
    using cs f c2 by (rule get_particle_energy_st_result)
  have step: "pair_energy_loop_st (computed_distance f) (i # idx) acc s
      = bind_st ?call (\<lambda>e_i. pair_energy_loop_st (computed_distance f) idx (np_add acc e_i)) s"
    by (simp add: bind_run [of "Geom_attr Geom_coordinates" s "Geom_coordinates G"]
          Geom_attr_run [OF G])
  show ?case
  proof (cases "get_particle_energy self (int i) (coordinates (Geom self))")
    case (Inl e)
    then have "fst (?call s) = Raised e"
      using res by simp
    then have "fst (pair_energy_loop_st (computed_distance f) (i # idx) acc s) = Raised e"
      unfolding step by (rule bind_raised)
    then show ?thesis
      using Inl by simp
  next
    case (Inr e_i)
    then have ret: "fst (?call s) = Returned e_i"
      using res by simp
    have "read_only ?call"
      by (rule read_only_get_particle_energy_st) (rule read_only_computed_distance)
    then have "unchanged s (snd (?call s))"
      by (simp add: read_only_def)
    then have "evaluator_of f (snd (?call s)) = Some self"
      using Cons.prems by (rule unchanged_evaluator_of)
    then have "fst (pair_energy_loop_st (computed_distance f) idx (np_add acc e_i) (snd (?call s)))
        = outcome_of (pair_energy_loop self idx (np_add acc e_i))"
      by (rule Cons.IH)
    then show ?thesis
      unfolding step using Inr by (simp add: bind_run [of ?call s e_i, OF ret])
  qed
qed

lemma calculate_total_pair_energy_st_result:
  assumes "evaluator_of f s = Some self"
  shows "fst (calculate_total_pair_energy_st (computed_distance f) s)
           = outcome_of (calculate_total_pair_energy self)"
proof -
  obtain G where G: "geom_at (self_Geom s) s = Some G"
    and cs: "array_at (Geom_coordinates G) s = Some (Coords (coordinates (Geom self)))"
    using assms by (rule evaluator_of_parts)
  let ?n = "length (coordinates (Geom self))"
  let ?loop = "pair_energy_loop_st (computed_distance f) [0..<?n] (Some 0)"
  have step: "calculate_total_pair_energy_st (computed_distance f) s
      = bind_st ?loop (\<lambda>e_total. returns (np_half e_total)) s"
    unfolding calculate_total_pair_energy_st_def
    by (simp add: bind_run [of "Geom_attr Geom_coordinates" s "Geom_coordinates G"]
          Geom_attr_run [OF G]
          bind_run [of "the_coords (Geom_coordinates G)" s "coordinates (Geom self)"]
          the_coords_run [OF cs])
  have loop: "fst (?loop s) = outcome_of (pair_energy_loop self [0..<?n] (Some 0))"
    using assms by (rule pair_energy_loop_st_result)
  show ?thesis
  proof (cases "pair_energy_loop self [0..<?n] (Some 0)")
    case (Inl e)
    then have "fst (?loop s) = Raised e"
      using loop by simp
    then have "fst (calculate_total_pair_energy_st (computed_distance f) s) = Raised e"
      unfolding step by (rule bind_raised)
    then show ?thesis
      using Inl by (simp add: calculate_total_pair_energy_def)
  next
    case (Inr e_total)
    then have ret: "fst (?loop s) = Returned e_total"
      using loop by simp
    show ?thesis
      unfolding step using Inr
      by (simp add: bind_run [of ?loop s e_total, OF ret] returns_def
            calculate_total_pair_energy_def)
  qed
qed

lemma calculate_tail_correction_st_result:
  assumes "evaluator_of f s = Some self"
  shows "fst (calculate_tail_correction_st s) = outcome_of (calculate_tail_correction self)"
proof -
  obtain G where G: "geom_at (self_Geom s) s = Some G"
    and n: "num_particles (Geom self) = Geom_num_particles G"
    and v: "volume (Geom self) = Geom_volume G"
    and c: "cutoff self = self_cutoff s"
    using assms by (rule evaluator_of_parts)
  show ?thesis
    unfolding calculate_tail_correction_st_def calculate_tail_correction_def
    by (simp add: bind_run [of "Geom_attr Geom_num_particles" s "Geom_num_particles G"]
          bind_run [of "Geom_attr Geom_volume" s "Geom_volume G"]
          Geom_attr_run [OF G] bind_st_def attr_def raises_def returns_def n v c Let_def)
qed

lemma pair_at_two_total:
  "calculate_total_pair_energy pair_at_two = Inr (Some (- 63 / 1024))"
proof -
  have idx: "[0..<length (coordinates (Geom pair_at_two))] = [0, 1]"
    by (simp add: pair_at_two_coordinates upt_rec)
  show ?thesis
    unfolding calculate_total_pair_energy_def Let_def idx
    using pair_at_two_energy by (simp add: np_half_def)
qed

lemma two_particle_evaluator_is_pair_at_two:
  "evaluator_of (\<lambda>p cs. map (sq_dist p) cs) two_particle_evaluator = Some pair_at_two"
  by (simp add: evaluator_of_def two_particle_evaluator_def two_particle_store_def
        Energy_init_st_def geom_at_def array_at_def pair_at_two_def open_box_def)

section \<open>The evaluator is read-only\<close>

text \<open>
  The hypothesis on the distance method is needed: with the method that writes through the
  row view, a call of \<^verbatim>\<open>get_particle_energy\<close> changes the particle coordinates.
\<close>

lemma recentring_distance_writes:
  "array_at 0 two_particle_store = Some (Coords [(0, 0, 0), (2, 0, 0)])
   \<and> array_at 0 (after recentring_distance (ParticleEnergy 1 0)
                   (snd (Energy_init_st 0 3 two_particle_store)))
       = Some (Coords [(0, 0, 0), (0, 0, 0)])"
  by (simp add: two_particle_store_def Energy_init_st_def get_particle_energy_st_def
        recentring_distance_def setitem_row_def computed_distance_def getitem_row_def
        np_delete_st_def np_delete_def np_less_def getitem_mask_def
        lennard_jones_potential_st_def np_reciprocal_def np_power_def np_subtract_def
        np_scale_def np_sum_st_def bind_st_def attr_def returns_def raises_def new_array_def
        the_coords_def the_reals_def the_floats_def the_bools_def array_at_def Let_def)

text \<open>
  C9. Given a geometry whose distance method is read-only, every call on the evaluator
  (pair potential of a number or of an array, per-particle energy, total pair energy, tail
  correction) leaves every array that existed before the call, the particle coordinates
  among them, every geometry object and the three attributes of the evaluator as they
  were; and in every store reachable from the constructor by such calls
  \<open>cutoff2 = cutoff * cutoff\<close>.
\<close>

theorem evaluator_is_read_only:
  assumes "\<And>g r_i coords. read_only (distance g r_i coords)"
  shows "unchanged s (after distance c s)
         \<and> (reachable distance s' \<longrightarrow> self_cutoff2 s' = self_cutoff s' * self_cutoff s')"
  using assms read_only_after [of distance s c] reachable_cutoff2 [of distance s'] by blast

theorem evaluator_is_read_only_witness:
  "array_at 0 two_particle_evaluator = Some (Coords [(0, 0, 0), (2, 0, 0)])
   \<and> fst (calculate_total_pair_energy_st open_box_distance two_particle_evaluator)
       = Returned (Some (- 63 / 1024))
   \<and> array_at 0 (after open_box_distance TotalPairEnergy two_particle_evaluator)
       = Some (Coords [(0, 0, 0), (2, 0, 0)])
   \<and> self_Geom (after open_box_distance TotalPairEnergy two_particle_evaluator) = 0
   \<and> self_cutoff (after open_box_distance TotalPairEnergy two_particle_evaluator) = 3
   \<and> self_cutoff2 (after open_box_distance TotalPairEnergy two_particle_evaluator) = 9"
proof -
  let ?s = two_particle_evaluator
  let ?s' = "after open_box_distance TotalPairEnergy ?s"
  have collaborator: "read_only (open_box_distance g r_i coords)" for g r_i coords
    unfolding open_box_distance_def by (rule read_only_computed_distance)
  have before: "array_at 0 ?s = Some (Coords [(0, 0, 0), (2, 0, 0)])"
    "self_Geom ?s = 0" "self_cutoff ?s = 3"
    by (simp_all add: two_particle_evaluator_def two_particle_store_def Energy_init_st_def
          array_at_def)
  have "reachable open_box_distance ?s"
    unfolding two_particle_evaluator_def by (rule reachable.constructed)
  then have reach: "reachable open_box_distance ?s'"
    by (rule reachable.called)
  have frame: "unchanged ?s ?s'" and inv: "self_cutoff2 ?s' = self_cutoff ?s' * self_cutoff ?s'"
    using evaluator_is_read_only [of open_box_distance ?s TotalPairEnergy ?s', OF collaborator]
      reach by simp_all
  have kept: "array_at 0 ?s' = Some (Coords [(0, 0, 0), (2, 0, 0)])"
    using frame before(1) by (rule unchanged_array_at)
  have attrs: "self_Geom ?s' = 0" "self_cutoff ?s' = 3"
    using frame before(2,3) by (simp_all add: unchanged_def)
  have result: "fst (calculate_total_pair_energy_st open_box_distance ?s)
      = Returned (Some (- 63 / 1024))"
    unfolding open_box_distance_def
    using calculate_total_pair_energy_st_result [OF two_particle_evaluator_is_pair_at_two]
    by (simp add: pair_at_two_total)
  show ?thesis
    using before(1) result kept attrs inv by simp
qed

end
